theory Spec2Isabelle
  imports Main "HOL-Library.Sublist" "HOL-Library.AList"
begin

section \<open>JavaScript strings: the built-ins used by \<open>src/libs/l10n.ts\<close>\<close>

text \<open>
  A JavaScript string is a sequence of code units; it is modelled as a \<^typ>\<open>string\<close>, one
  \<^typ>\<open>char\<close> per code unit. The only built-in with behaviour of its own that the plugin calls is
  \<open>String.prototype.replaceAll(searchValue, replaceValue)\<close> with two strings. It is modelled
  after the ECMAScript algorithm: \<open>StringIndexOf\<close> finds the match positions from left to
  right, each match is replaced by \<open>GetSubstitution\<close> of the replacement string, and the
  pieces between the matches are kept.
\<close>

function StringIndexOf :: "string \<Rightarrow> string \<Rightarrow> nat \<Rightarrow> nat option" where
  "StringIndexOf s searchValue fromIndex =
     (if length s < fromIndex + length searchValue then None
      else if take (length searchValue) (drop fromIndex s) = searchValue then Some fromIndex
      else StringIndexOf s searchValue (Suc fromIndex))"
  by pat_completeness auto
termination
  by (relation "measure (\<lambda>(s, p, i). Suc (length s) - i)") auto

text \<open>
  \<open>GetSubstitution(matched, str, position, captures, namedCaptures, replacementTemplate)\<close>
  for a string pattern: there are no captures and no named captures, so \<open>$n\<close> and \<open>$<\<close>
  stand for themselves, while \<open>$$\<close>, \<open>$&\<close>, \<open>$`\<close> and \<open>$'\<close> are expanded.
\<close>

definition dollar :: char where
  "dollar = CHR ''$''"

definition is_digit :: "char \<Rightarrow> bool" where
  "is_digit c = (c \<in> set ''0123456789'')"

fun GetSubstitution :: "string \<Rightarrow> string \<Rightarrow> nat \<Rightarrow> string \<Rightarrow> string" where
  "GetSubstitution matched str position [] = []"
| "GetSubstitution matched str position [c] = [c]"
| "GetSubstitution matched str position (c # d # rest) =
     (if c = dollar \<and> d = dollar
        then dollar # GetSubstitution matched str position rest
      else if c = dollar \<and> d = CHR 0x60
        then take position str @ GetSubstitution matched str position rest
      else if c = dollar \<and> d = CHR ''&''
        then matched @ GetSubstitution matched str position rest
      else if c = dollar \<and> d = CHR 0x27
        then drop (min (position + length matched) (length str)) str
               @ GetSubstitution matched str position rest
      else if c = dollar \<and> (is_digit d \<or> d = CHR ''<'')
        then c # d # GetSubstitution matched str position rest
      else c # GetSubstitution matched str position (d # rest))"

function matchPositions :: "string \<Rightarrow> string \<Rightarrow> nat \<Rightarrow> nat list" where
  "matchPositions s searchString fromIndex =
     (case StringIndexOf s searchString fromIndex of
        None \<Rightarrow> []
      | Some p \<Rightarrow> p # matchPositions s searchString (p + max 1 (length searchString)))"
  by pat_completeness auto

lemma StringIndexOf_bounds:
  "StringIndexOf s pat i = Some p \<Longrightarrow> i \<le> p \<and> p + length pat \<le> length s"
proof (induction s pat i rule: StringIndexOf.induct)
  case (1 s pat i)
  then show ?case
    by (auto split: if_splits simp del: StringIndexOf.simps
        simp add: StringIndexOf.simps [of s pat i])
qed

termination matchPositions
proof (relation "measure (\<lambda>(s, pat, i). Suc (length s) - i)")
  show "wf (measure (\<lambda>(s, pat, i). Suc (length s) - i))"
    by simp
next
  fix s searchString :: string and fromIndex p :: nat
  assume "StringIndexOf s searchString fromIndex = Some p"
  then have "fromIndex \<le> p \<and> p + length searchString \<le> length s"
    by (rule StringIndexOf_bounds)
  then show "((s, searchString, p + max 1 (length searchString)), (s, searchString, fromIndex))
               \<in> measure (\<lambda>(s, pat, i). Suc (length s) - i)"
    by auto
qed

fun assemble :: "string \<Rightarrow> string \<Rightarrow> string \<Rightarrow> nat list \<Rightarrow> nat \<Rightarrow> string \<Rightarrow> string" where
  "assemble s searchString replaceValue [] endOfLastMatch result =
     (if endOfLastMatch < length s then result @ drop endOfLastMatch s else result)"
| "assemble s searchString replaceValue (p # ps) endOfLastMatch result =
     assemble s searchString replaceValue ps (p + length searchString)
       (result @ take (p - endOfLastMatch) (drop endOfLastMatch s)
          @ GetSubstitution searchString s p replaceValue)"

definition replaceAll :: "string \<Rightarrow> string \<Rightarrow> string \<Rightarrow> string" where
  "replaceAll s searchString replaceValue =
     assemble s searchString replaceValue (matchPositions s searchString 0) 0 []"

section \<open>Localization lookup (\<open>src/libs/l10n.ts\<close>)\<close>

text \<open>
  The module state is the pair of variables \<open>_locale\<close> and \<open>_translations\<close>. A value of type
  \<open>Translations\<close> is given by its own properties: a map from a locale to a table, itself a map
  from keys to templates. The optional parameters \<open>args\<close> and \<open>locale\<close> are options; the
  object \<open>args\<close> is given by its entries in the order in which \<open>Object.entries\<close> enumerates
  them.

  The function \<open>t\<close> of the source is modelled twice. \<open>t\<close> below reads own properties only,
  an absent locale or key reading as \<open>undefined\<close> (\<^const>\<open>None\<close>). \<open>t_js\<close> after it reads
  the two objects as JavaScript does, own properties first and then the members that a plain
  object inherits from its prototype; its result can be a value that is no string, or an
  exception. Where the lookup finds no inherited member, \<open>t_js\<close> returns what \<open>t\<close> returns.
\<close>

type_synonym Translations = "string \<rightharpoonup> (string \<rightharpoonup> string)"

record l10n =
  locale_var :: string
  translations_var :: Translations

definition l10n_init :: l10n where
  "l10n_init = \<lparr>locale_var = ''en'', translations_var = Map.empty\<rparr>"

definition setupL10N :: "string \<Rightarrow> Translations \<Rightarrow> l10n \<Rightarrow> l10n" where
  "setupL10N locale builtinTranslations st =
     st\<lparr>locale_var := locale, translations_var := builtinTranslations\<rparr>"

definition placeholder :: "string \<Rightarrow> string" where
  "placeholder name = ''${'' @ name @ ''}''"

definition resolve :: "l10n \<Rightarrow> string \<Rightarrow> string option \<Rightarrow> string" where
  "resolve st key locale =
     (case translations_var st (case locale of None \<Rightarrow> locale_var st | Some l \<Rightarrow> l) of
        None \<Rightarrow> key
      | Some table \<Rightarrow> (case table key of None \<Rightarrow> key | Some template \<Rightarrow> template))"

definition t :: "l10n \<Rightarrow> string \<Rightarrow> (string \<times> string) list option \<Rightarrow> string option \<Rightarrow> string" where
  "t st key args locale =
     (let template = resolve st key locale in
      case args of
        None \<Rightarrow> template
      | Some entries \<Rightarrow>
          foldl (\<lambda>str (name, val). replaceAll str (placeholder name) val) template entries)"

subsection \<open>The lookup with inherited members\<close>

text \<open>
  \<open>_translations\<close> and its tables are plain objects: the reads \<open>_translations[L]\<close> and
  \<open>table[key]\<close> find an own property or else a member inherited from \<open>Object.prototype\<close>,
  such as \<open>constructor\<close> or \<open>toString\<close>. What is inherited belongs to the JavaScript runtime
  and is a parameter: \<open>inherited R name\<close> is what a plain object without an own property
  \<open>name\<close> yields for it, and \<open>property_of R v name\<close> what reading \<open>name\<close> on such a value
  \<open>v\<close> yields. A read yields nothing (\<open>undefined\<close> or \<open>null\<close>), a value, or the exception of
  a getter. A value is a string or something else (\<open>Val\<close>: a function, an object, a number),
  on which \<open>replaceAll\<close> is no function.
\<close>

datatype 'v jvalue = Str string | Val 'v

datatype 'v looked = Absent | Found "'v jvalue" | Raises

text \<open>
  The exceptions of \<open>t\<close>: the \<open>TypeError\<close> of calling \<open>replaceAll\<close> on a value that has
  no such function, and whatever a getter threw while a property was read.
\<close>

datatype error = TypeError | GetterError

record 'v runtime =
  inherited :: "string \<Rightarrow> 'v looked"
  property_of :: "'v jvalue \<Rightarrow> string \<Rightarrow> 'v looked"

definition resolve_js :: "'v runtime \<Rightarrow> l10n \<Rightarrow> string \<Rightarrow> string option \<Rightarrow> error + 'v jvalue" where
  "resolve_js R st key locale =
     (let L = (case locale of None \<Rightarrow> locale_var st | Some l \<Rightarrow> l);
          found =
            (case translations_var st L of
               Some table \<Rightarrow>
                 (case table key of
                    Some template \<Rightarrow> Found (Str template)
                  | None \<Rightarrow> inherited R key)
             | None \<Rightarrow>
                 (case inherited R L of
                    Absent \<Rightarrow> Absent
                  | Raises \<Rightarrow> Raises
                  | Found v \<Rightarrow> property_of R v key))
      in case found of
           Absent \<Rightarrow> Inr (Str key)
         | Found v \<Rightarrow> Inr v
         | Raises \<Rightarrow> Inl GetterError)"

definition t_js ::
  "'v runtime \<Rightarrow> l10n \<Rightarrow> string \<Rightarrow> (string \<times> string) list option \<Rightarrow> string option
     \<Rightarrow> error + 'v jvalue" where
  "t_js R st key args locale =
     (case resolve_js R st key locale of
        Inl e \<Rightarrow> Inl e
      | Inr template \<Rightarrow>
          (case args of
             None \<Rightarrow> Inr template
           | Some entries \<Rightarrow>
               (case template of
                  Str s \<Rightarrow>
                    Inr (Str (foldl (\<lambda>str (name, val). replaceAll str (placeholder name) val)
                                s entries))
                | Val v \<Rightarrow> (if entries = [] then Inr (Val v) else Inl TypeError))))"

section \<open>Host values and host state (\<open>src/orca.d.ts\<close>)\<close>

text \<open>
  A property value has type \<open>any\<close>; the host stores JSON values, and an absent \<open>value\<close>
  reads as \<open>undefined\<close>. An object is the list of its own enumerable properties in
  enumeration order; numbers are the integers (block identifiers, flags).
\<close>

datatype jsval =
    JUndefined
  | JNull
  | JBool bool
  | JNum int
  | JStr string
  | JArr "jsval list"
  | JObj "(string \<times> jsval) list"

text \<open>\<open>ToBoolean\<close>, as used by \<open>||\<close>.\<close>

fun truthy :: "jsval \<Rightarrow> bool" where
  "truthy JUndefined = False"
| "truthy JNull = False"
| "truthy (JBool b) = b"
| "truthy (JNum n) = (n \<noteq> 0)"
| "truthy (JStr s) = (s \<noteq> [])"
| "truthy (JArr xs) = True"
| "truthy (JObj kvs) = True"

text \<open>The decimal name of an array index.\<close>

fun decimal :: "nat \<Rightarrow> string" where
  "decimal n =
     (if n < 10 then [''0123456789'' ! n]
      else decimal (n div 10) @ [''0123456789'' ! (n mod 10)])"

text \<open>
  The properties copied by an object spread \<open>{ ...v }\<close>: none for \<open>undefined\<close>, \<open>null\<close>,
  booleans and numbers, the indexed elements of a string or an array, and the own
  properties of an object.
\<close>

fun own_entries :: "jsval \<Rightarrow> (string \<times> jsval) list" where
  "own_entries (JObj kvs) = kvs"
| "own_entries (JArr xs) = zip (map decimal [0..<length xs]) xs"
| "own_entries (JStr s) = zip (map decimal [0..<length s]) (map (\<lambda>c. JStr [c]) s)"
| "own_entries v = []"

text \<open>
  The member access \<open>v?.type\<close>: only an object can have an own property \<open>type\<close>;
  \<open>undefined\<close> and \<open>null\<close> short-circuit, and primitives and arrays have no such member.
\<close>

fun member_type :: "jsval \<Rightarrow> jsval" where
  "member_type (JObj kvs) = (case map_of kvs ''type'' of None \<Rightarrow> JUndefined | Some v \<Rightarrow> v)"
| "member_type v = JUndefined"

record BlockProperty =
  prop_name :: string
  prop_type :: int
  prop_value :: jsval

text \<open>Of a \<open>Block\<close> the plugin reads \<open>properties\<close> only.\<close>

record Block =
  block_id :: int
  properties :: "BlockProperty list"

text \<open>
  The functions of \<open>main.tsx\<close> that are handed to the host, and functions of other origin
  that the registries may hold.
\<close>

datatype EditorCommandFn = SetMultiCol | SetSeries | ClearLayout | ForeignFn string

datatype RenderFn = RenderTableLayout | ForeignRender string

record Command =
  label :: string
  fn :: EditorCommandFn

record BlockMenuCommand =
  worksOnMultipleBlocks :: bool
  render_fn :: RenderFn

record orca_state =
  blocks :: "int \<rightharpoonup> Block"
  commands :: "string \<rightharpoonup> Command"
  blockMenuCommands :: "string \<rightharpoonup> BlockMenuCommand"
  state_locale :: string

text \<open>
  The calls the plugin makes on the host API, with their arguments. The undo function
  passed to \<open>registerEditorCommand\<close> is always the no-op \<open>() => {}\<close> and is left out;
  \<open>CloseMenu\<close> is a call of the \<open>close\<close> callback that the host passes to \<open>render\<close>.
\<close>

datatype host_call =
    RegisterEditorCommand string EditorCommandFn string
  | UnregisterEditorCommand string
  | InvokeEditorCommand string jsval "jsval list"
  | RegisterBlockMenuCommand string BlockMenuCommand
  | UnregisterBlockMenuCommand string
  | InjectCSSResource string string
  | RemoveCSSResources string
  | ConsoleLog string
  | CloseMenu

text \<open>What an awaited host promise settles to.\<close>

datatype outcome = Resolved jsval | Rejected jsval

section \<open>The plugin (\<open>src/main.tsx\<close>)\<close>

record plugin_state =
  pluginName :: string
  l10n_state :: l10n

record world =
  orca :: orca_state
  plugin :: plugin_state
  calls :: "host_call list"

text \<open>
  The host's side of a call, after the documentation of \<open>orca.state.commands\<close> and
  \<open>orca.state.blockMenuCommands\<close> in \<open>orca.d.ts\<close> (registries of all registered commands,
  indexed by their identifiers): registering enters the command under its identifier,
  unregistering removes it. What an invoked editor command does to the blocks happens in
  the host's command pipeline and is not part of the plugin; the invocation is recorded.
\<close>

fun host_react :: "host_call \<Rightarrow> orca_state \<Rightarrow> orca_state" where
  "host_react (RegisterEditorCommand i f l) st =
     st\<lparr>commands := (commands st)(i \<mapsto> \<lparr>label = l, fn = f\<rparr>)\<rparr>"
| "host_react (UnregisterEditorCommand i) st = st\<lparr>commands := (commands st)(i := None)\<rparr>"
| "host_react (RegisterBlockMenuCommand i c) st =
     st\<lparr>blockMenuCommands := (blockMenuCommands st)(i \<mapsto> c)\<rparr>"
| "host_react (UnregisterBlockMenuCommand i) st =
     st\<lparr>blockMenuCommands := (blockMenuCommands st)(i := None)\<rparr>"
| "host_react c st = st"

definition issue :: "host_call \<Rightarrow> world \<Rightarrow> world" where
  "issue c w = w\<lparr>orca := host_react c (orca w), calls := calls w @ [c]\<rparr>"

text \<open>The calls issued between two worlds.\<close>

definition issued :: "world \<Rightarrow> world \<Rightarrow> host_call list" where
  "issued w w' = drop (length (calls w)) (calls w')"

subsection \<open>The attribute toggler\<close>

definition getBlockAttr :: "orca_state \<Rightarrow> int \<Rightarrow> jsval" where
  "getBlockAttr st blockId =
     (let attrProp = (case blocks st blockId of
                        None \<Rightarrow> None
                      | Some block \<Rightarrow> find (\<lambda>p. prop_name p = ''_attr'') (properties block));
          v = (case attrProp of None \<Rightarrow> JUndefined | Some p \<Rightarrow> prop_value p)
      in if truthy v then v else JObj [])"

definition setProperties_call :: "int \<Rightarrow> (string \<times> jsval) list \<Rightarrow> host_call" where
  "setProperties_call blockId attr =
     InvokeEditorCommand ''core.editor.setProperties'' JNull
       [JArr [JNum blockId],
        JArr [JObj [(''name'', JStr ''_attr''), (''value'', JObj attr), (''type'', JNum 0)]]]"

definition deleteProperties_call :: "int \<Rightarrow> host_call" where
  "deleteProperties_call blockId =
     InvokeEditorCommand ''core.editor.deleteProperties'' JNull
       [JArr [JNum blockId], JArr [JStr ''_attr'']]"

text \<open>
  \<open>await\<close> of the promise that the host call returned: a rejection is the result of the
  whole operation, otherwise the operation goes on and returns \<open>null\<close>. The parameter
  \<open>_editor\<close> of the three operations is unused and left out.
\<close>

definition await_then_null :: "outcome \<Rightarrow> outcome" where
  "await_then_null reply = (case reply of Rejected e \<Rightarrow> Rejected e | Resolved r \<Rightarrow> Resolved JNull)"

definition setMultiCol :: "outcome \<Rightarrow> int \<Rightarrow> world \<Rightarrow> world \<times> outcome" where
  "setMultiCol reply blockId w =
     (let attr = AList.update ''multi-col'' (JNum 1) (own_entries (getBlockAttr (orca w) blockId))
      in (issue (setProperties_call blockId attr) w, await_then_null reply))"

definition setSeries :: "outcome \<Rightarrow> int \<Rightarrow> world \<Rightarrow> world \<times> outcome" where
  "setSeries reply blockId w =
     (let attr = AList.update ''serie'' (JNum 1) (own_entries (getBlockAttr (orca w) blockId))
      in (issue (setProperties_call blockId attr) w, await_then_null reply))"

definition clearLayout :: "outcome \<Rightarrow> int \<Rightarrow> world \<Rightarrow> world \<times> outcome" where
  "clearLayout reply blockId w =
     (let attr0 = own_entries (getBlockAttr (orca w) blockId);
          attr1 = AList.delete ''multi-col'' attr0;
          attr = AList.delete ''serie'' attr1
      in if length (map fst attr) = 0
         then (issue (deleteProperties_call blockId) w, await_then_null reply)
         else (issue (setProperties_call blockId attr) w, await_then_null reply))"

subsection \<open>The block menu\<close>

text \<open>
  The three \<open>onClick\<close> closures differ in the command suffix only; a closure is its suffix
  together with the captured \<open>blockId\<close>. The plugin name is read when the closure runs.
\<close>

datatype handler = Handler string int

datatype element =
    MenuText (preIcon: "string option") (title: string) (onClick: "handler option")
      (children: "element list")
  | Menu "element list"

fun click :: "handler \<Rightarrow> outcome \<Rightarrow> world \<Rightarrow> world" where
  "click (Handler sfx blockId) reply w =
     (let w' = issue (InvokeEditorCommand (pluginName (plugin w) @ sfx) JNull [JNum blockId]) w
      in case reply of Rejected e \<Rightarrow> w' | Resolved r \<Rightarrow> issue CloseMenu w')"

definition render :: "world \<Rightarrow> int \<Rightarrow> element option" where
  "render w blockId =
     (case blocks (orca w) blockId of
        None \<Rightarrow> None
      | Some block \<Rightarrow>
          (let repr = (case find (\<lambda>p. prop_name p = ''_repr'') (properties block) of
                         None \<Rightarrow> JUndefined
                       | Some p \<Rightarrow> prop_value p)
           in if member_type repr \<noteq> JStr ''table2'' then None
              else Some
                (MenuText (Some ''ti ti-layout-dashboard'')
                   (t (l10n_state (plugin w)) ''Table Layout'' None None) None
                   [Menu
                     [MenuText None (t (l10n_state (plugin w)) ''Multi-column'' None None)
                        (Some (Handler ''.multi-col'' blockId)) [],
                      MenuText None (t (l10n_state (plugin w)) ''Series'' None None)
                        (Some (Handler ''.series'' blockId)) [],
                      MenuText None (t (l10n_state (plugin w)) ''None'' None None)
                        (Some (Handler ''.none'' blockId)) []]])))"

subsection \<open>Lifecycle\<close>

text \<open>
  The translation table \<open>zhCN\<close> of \<open>./translations/zhCN\<close> is a parameter of \<open>load\<close>.
\<close>

definition load :: "(string \<rightharpoonup> string) \<Rightarrow> string \<Rightarrow> world \<Rightarrow> world" where
  "load zhCN name w0 =
     (let w1 = w0\<lparr>plugin := (plugin w0)\<lparr>pluginName := name\<rparr>\<rparr>;
          w2 = w1\<lparr>plugin := (plugin w1)\<lparr>l10n_state :=
                 setupL10N (state_locale (orca w1)) [''zh-CN'' \<mapsto> zhCN] (l10n_state (plugin w1))\<rparr>\<rparr>;
          w3 = (if commands (orca w2) (pluginName (plugin w2) @ ''.multi-col'') = None
                then issue (RegisterEditorCommand (pluginName (plugin w2) @ ''.multi-col'')
                       SetMultiCol (t (l10n_state (plugin w2)) ''Set Multi-column'' None None)) w2
                else w2);
          w4 = (if commands (orca w3) (pluginName (plugin w3) @ ''.series'') = None
                then issue (RegisterEditorCommand (pluginName (plugin w3) @ ''.series'')
                       SetSeries (t (l10n_state (plugin w3)) ''Set Series'' None None)) w3
                else w3);
          w5 = (if commands (orca w4) (pluginName (plugin w4) @ ''.none'') = None
                then issue (RegisterEditorCommand (pluginName (plugin w4) @ ''.none'')
                       ClearLayout (t (l10n_state (plugin w4)) ''Clear Layout'' None None)) w4
                else w4);
          w6 = (if blockMenuCommands (orca w5) (pluginName (plugin w5) @ ''.menu'') = None
                then issue (RegisterBlockMenuCommand (pluginName (plugin w5) @ ''.menu'')
                       \<lparr>worksOnMultipleBlocks = False, render_fn = RenderTableLayout\<rparr>) w5
                else w5);
          w7 = issue (InjectCSSResource (pluginName (plugin w6) @ ''/dist/layouts.css'')
                 (pluginName (plugin w6))) w6
      in issue (ConsoleLog (pluginName (plugin w7) @ '' loaded.'')) w7)"

definition unload :: "world \<Rightarrow> world" where
  "unload w0 =
     (let w1 = issue (UnregisterEditorCommand (pluginName (plugin w0) @ ''.multi-col'')) w0;
          w2 = issue (UnregisterEditorCommand (pluginName (plugin w1) @ ''.series'')) w1;
          w3 = issue (UnregisterEditorCommand (pluginName (plugin w2) @ ''.none'')) w2;
          w4 = issue (UnregisterBlockMenuCommand (pluginName (plugin w3) @ ''.menu'')) w3;
          w5 = issue (RemoveCSSResources (pluginName (plugin w4))) w4
      in issue (ConsoleLog (pluginName (plugin w5) @ '' unloaded.'')) w5)"

section \<open>Notions used to state the properties\<close>

text \<open>
  Literal replacement, as the specification words it: scanning from the left, every
  occurrence of the pattern is replaced by the value as it stands.
\<close>

fun replace_every :: "string \<Rightarrow> string \<Rightarrow> string \<Rightarrow> string" where
  "replace_every pat val [] = []"
| "replace_every pat val (c # cs) =
     (if pat \<noteq> [] \<and> prefix pat (c # cs)
      then val @ replace_every pat val (drop (length pat) (c # cs))
      else c # replace_every pat val cs)"

text \<open>
  A replacement value is literal when it contains none of the pairs \<open>$$\<close>, \<open>$&\<close>,
  \<open>$`\<close>, \<open>$'\<close> that \<open>replaceAll\<close> expands.
\<close>

fun literal_value :: "string \<Rightarrow> bool" where
  "literal_value (c # d # rest) =
     (\<not> (c = dollar \<and> d \<in> {dollar, CHR ''&'', CHR 0x60, CHR 0x27}) \<and> literal_value (d # rest))"
| "literal_value _ = True"

text \<open>The literal substitution of all entries of \<open>args\<close>, in their order.\<close>

definition substitute :: "string \<Rightarrow> (string \<times> string) list \<Rightarrow> string" where
  "substitute template entries =
     foldl (\<lambda>str (name, val). replace_every (placeholder name) val str) template entries"

definition is_inject :: "host_call \<Rightarrow> bool" where
  "is_inject c = (case c of InjectCSSResource url role \<Rightarrow> True | _ \<Rightarrow> False)"

text \<open>The four guarded registrations of \<open>load\<close>, each as a step of its own.\<close>

definition register_multi_col :: "world \<Rightarrow> world" where
  "register_multi_col w =
     (if commands (orca w) (pluginName (plugin w) @ ''.multi-col'') = None
                then issue (RegisterEditorCommand (pluginName (plugin w) @ ''.multi-col'')
                       SetMultiCol (t (l10n_state (plugin w)) ''Set Multi-column'' None None)) w
                else w)"

definition register_series :: "world \<Rightarrow> world" where
  "register_series w =
     (if commands (orca w) (pluginName (plugin w) @ ''.series'') = None
                then issue (RegisterEditorCommand (pluginName (plugin w) @ ''.series'')
                       SetSeries (t (l10n_state (plugin w)) ''Set Series'' None None)) w
                else w)"

definition register_none :: "world \<Rightarrow> world" where
  "register_none w =
     (if commands (orca w) (pluginName (plugin w) @ ''.none'') = None
                then issue (RegisterEditorCommand (pluginName (plugin w) @ ''.none'')
                       ClearLayout (t (l10n_state (plugin w)) ''Clear Layout'' None None)) w
                else w)"

definition register_menu :: "world \<Rightarrow> world" where
  "register_menu w =
     (if blockMenuCommands (orca w) (pluginName (plugin w) @ ''.menu'') = None
                then issue (RegisterBlockMenuCommand (pluginName (plugin w) @ ''.menu'')
                       \<lparr>worksOnMultipleBlocks = False, render_fn = RenderTableLayout\<rparr>) w
                else w)"

text \<open>The registrations that \<open>load\<close> makes in a host state, in the order of the source.\<close>

definition registrations :: "(string \<rightharpoonup> string) \<Rightarrow> string \<Rightarrow> world \<Rightarrow> host_call list" where
  "registrations zhCN name w =
     (let l = setupL10N (state_locale (orca w)) [''zh-CN'' \<mapsto> zhCN] (l10n_state (plugin w)) in
      (if commands (orca w) (name @ ''.multi-col'') = None
       then [RegisterEditorCommand (name @ ''.multi-col'') SetMultiCol
               (t l ''Set Multi-column'' None None)] else [])
      @ (if commands (orca w) (name @ ''.series'') = None
         then [RegisterEditorCommand (name @ ''.series'') SetSeries
                 (t l ''Set Series'' None None)] else [])
      @ (if commands (orca w) (name @ ''.none'') = None
         then [RegisterEditorCommand (name @ ''.none'') ClearLayout
                 (t l ''Clear Layout'' None None)] else [])
      @ (if blockMenuCommands (orca w) (name @ ''.menu'') = None
         then [RegisterBlockMenuCommand (name @ ''.menu'')
                 \<lparr>worksOnMultipleBlocks = False, render_fn = RenderTableLayout\<rparr>] else []))"

text \<open>
  The names of the members of \<open>Object.prototype\<close> (ECMAScript 2023, with Annex B), and a
  sample runtime for the examples: a plain object inherits these members, each standing
  for itself, and reading a property of one finds nothing. The examples that use it read
  no property of an inherited member.
\<close>

definition object_prototype_names :: "string list" where
  "object_prototype_names =
     [''constructor'', ''hasOwnProperty'', ''isPrototypeOf'', ''propertyIsEnumerable'',
      ''toLocaleString'', ''toString'', ''valueOf'', ''__proto__'', ''__defineGetter__'',
      ''__defineSetter__'', ''__lookupGetter__'', ''__lookupSetter__'']"

datatype builtin = Member string

definition sample_runtime :: "builtin runtime" where
  "sample_runtime =
     \<lparr>inherited = (\<lambda>name. if name \<in> set object_prototype_names
                          then Found (Val (Member name)) else Absent),
      property_of = (\<lambda>v name. Absent)\<rparr>"

text \<open>Sample states.\<close>

definition demo_l10n :: l10n where
  "demo_l10n = \<lparr>locale_var = ''zh-CN'',
     translations_var = [''zh-CN'' \<mapsto> [''Hello ${name}'' \<mapsto> ''Ni hao ${name}!'']]\<rparr>"

definition demo_orca :: orca_state where
  "demo_orca = \<lparr>
     blocks = [
       1 \<mapsto> \<lparr>block_id = 1, properties =
              [\<lparr>prop_name = ''_repr'', prop_type = 0, prop_value = JObj [(''type'', JStr ''table2'')]\<rparr>,
               \<lparr>prop_name = ''_attr'', prop_type = 0,
                prop_value = JObj [(''multi-col'', JNum 1), (''customKey'', JStr ''x'')]\<rparr>]\<rparr>,
       2 \<mapsto> \<lparr>block_id = 2, properties =
              [\<lparr>prop_name = ''_repr'', prop_type = 0, prop_value = JObj [(''type'', JStr ''text'')]\<rparr>]\<rparr>,
       3 \<mapsto> \<lparr>block_id = 3, properties =
              [\<lparr>prop_name = ''_attr'', prop_type = 0, prop_value = JObj [(''serie'', JNum 1)]\<rparr>]\<rparr>,
       4 \<mapsto> \<lparr>block_id = 4, properties =
              [\<lparr>prop_name = ''_attr'', prop_type = 0, prop_value = JObj [(''multi-col'', JNum 1)]\<rparr>]\<rparr>],
     commands = Map.empty,
     blockMenuCommands = Map.empty,
     state_locale = ''en''\<rparr>"

definition demo_world :: world where
  "demo_world = \<lparr>orca = demo_orca,
     plugin = \<lparr>pluginName = ''table-layout'', l10n_state = l10n_init\<rparr>,
     calls = []\<rparr>"

section \<open>Auxiliary facts\<close>

subsection \<open>\<open>replaceAll\<close> with a literal value\<close>

lemma GetSubstitution_literal:
  "literal_value v \<Longrightarrow> GetSubstitution m s p v = v"
proof (induction m s p v rule: GetSubstitution.induct)
  case (3 m s p c d rest)
  from "3.prems" have lit: "literal_value (d # rest)"
    and np: "\<not> (c = dollar \<and> d \<in> {dollar, CHR ''&'', CHR 0x60, CHR 0x27})"
    by simp_all
  show ?case
  proof (cases "c = dollar \<and> (is_digit d \<or> d = CHR ''<'')")
    case True
    have "literal_value rest"
      using lit by (cases rest) simp_all
    with True np "3.IH"(5) show ?thesis by auto
  next
    case False
    with np lit "3.IH"(6) show ?thesis by auto
  qed
qed simp_all

lemma StringIndexOf_None:
  "StringIndexOf s pat i = None \<Longrightarrow> pat \<noteq> [] \<Longrightarrow> i \<le> j \<Longrightarrow> \<not> prefix pat (drop j s)"
proof (induction s pat i rule: StringIndexOf.induct)
  case (1 s pat i)
  show ?case
  proof (cases "length s < i + length pat")
    case True
    have "length (drop j s) < length pat"
      using True "1.prems" by (cases pat) auto
    then show ?thesis
      using prefix_length_le [of pat "drop j s"] by auto
  next
    case False
    with "1.prems" have ne: "take (length pat) (drop i s) \<noteq> pat"
      and rec: "StringIndexOf s pat (Suc i) = None"
      by (auto split: if_splits simp del: StringIndexOf.simps simp add: StringIndexOf.simps [of s pat i])
    show ?thesis
    proof (cases "j = i")
      case True
      with ne show ?thesis by (auto simp: prefix_def)
    next
      case False
      with "1.prems" have "Suc i \<le> j" by simp
      with "1.IH" [OF \<open>\<not> length s < i + length pat\<close> ne rec] "1.prems" show ?thesis by simp
    qed
  qed
qed

lemma StringIndexOf_Some:
  "StringIndexOf s pat i = Some p \<Longrightarrow>
     prefix pat (drop p s) \<and> (\<forall>j. i \<le> j \<and> j < p \<longrightarrow> \<not> prefix pat (drop j s))"
proof (induction s pat i rule: StringIndexOf.induct)
  case (1 s pat i)
  show ?case
  proof (cases "take (length pat) (drop i s) = pat")
    case True
    with "1.prems" have "p = i"
      by (auto split: if_splits simp del: StringIndexOf.simps simp add: StringIndexOf.simps [of s pat i])
    with True show ?thesis by (auto simp: prefix_def) (metis append_take_drop_id)
  next
    case False
    with "1.prems" have len: "\<not> length s < i + length pat"
      and rec: "StringIndexOf s pat (Suc i) = Some p"
      by (auto split: if_splits simp del: StringIndexOf.simps simp add: StringIndexOf.simps [of s pat i])
    from "1.IH" [OF len False rec]
    have ih: "prefix pat (drop p s)" "\<And>j. Suc i \<le> j \<Longrightarrow> j < p \<Longrightarrow> \<not> prefix pat (drop j s)"
      by auto
    have "\<not> prefix pat (drop i s)"
      using False by (auto simp: prefix_def)
    with ih show ?thesis
      by (metis Suc_leI le_neq_implies_less)
  qed
qed

lemma replace_every_skip:
  "(\<And>j. i \<le> j \<Longrightarrow> j < p \<Longrightarrow> \<not> prefix pat (drop j s)) \<Longrightarrow> i \<le> p \<Longrightarrow> p \<le> length s \<Longrightarrow>
     replace_every pat v (drop i s) = take (p - i) (drop i s) @ replace_every pat v (drop p s)"
proof (induction "p - i" arbitrary: i)
  case 0
  then show ?case by simp
next
  case (Suc n)
  then have lt: "i < p" "i < length s" by auto
  then have d: "drop i s = s ! i # drop (Suc i) s"
    by (simp add: Cons_nth_drop_Suc)
  have np: "\<not> prefix pat (drop i s)" using Suc.prems(1) [of i] lt by simp
  have ih: "replace_every pat v (drop (Suc i) s)
      = take (p - Suc i) (drop (Suc i) s) @ replace_every pat v (drop p s)"
    using Suc.hyps(1) [of "Suc i"] Suc.hyps(2) Suc.prems lt by auto
  have "p - i = Suc (p - Suc i)" using lt by simp
  then show ?case using np ih d by simp
qed

lemma replace_every_none:
  "(\<And>j. i \<le> j \<Longrightarrow> \<not> prefix pat (drop j s)) \<Longrightarrow> i \<le> length s \<Longrightarrow> replace_every pat v (drop i s) = drop i s"
  using replace_every_skip [of i "length s" pat s v] by simp

lemma assemble_literal:
  "pat \<noteq> [] \<Longrightarrow> literal_value v \<Longrightarrow> i \<le> length s \<Longrightarrow>
     assemble s pat v (matchPositions s pat i) i acc = acc @ replace_every pat v (drop i s)"
proof (induction s pat i arbitrary: acc rule: matchPositions.induct)
  case (1 s pat i)
  show ?case
  proof (cases "StringIndexOf s pat i")
    case None
    then have "replace_every pat v (drop i s) = drop i s"
      using StringIndexOf_None [OF None "1.prems"(1)] "1.prems" by (intro replace_every_none) auto
    with None show ?thesis by simp
  next
    case (Some p)
    from StringIndexOf_bounds [OF Some] have b: "i \<le> p" "p + length pat \<le> length s" by auto
    from StringIndexOf_Some [OF Some]
    have pre: "prefix pat (drop p s)" and no: "\<And>j. i \<le> j \<Longrightarrow> j < p \<Longrightarrow> \<not> prefix pat (drop j s)"
      by auto
    have m: "max 1 (length pat) = length pat" using "1.prems"(1) by (cases pat) auto
    have skip: "replace_every pat v (drop i s) = take (p - i) (drop i s) @ replace_every pat v (drop p s)"
      using no b by (intro replace_every_skip) auto
    have ne: "drop p s \<noteq> []" using pre "1.prems"(1) by auto
    then obtain c cs where cs: "drop p s = c # cs" by (cases "drop p s") auto
    have dd: "drop (length pat) (c # cs) = drop (p + length pat) s"
      unfolding cs [symmetric] by (simp add: add.commute)
    have "replace_every pat v (c # cs) = v @ replace_every pat v (drop (p + length pat) s)"
      using pre "1.prems"(1) unfolding dd [symmetric] cs by simp
    then have at: "replace_every pat v (drop p s) = v @ replace_every pat v (drop (p + length pat) s)"
      unfolding cs .
    have ih: "assemble s pat v (matchPositions s pat (p + length pat)) (p + length pat) acc'
         = acc' @ replace_every pat v (drop (p + length pat) s)" for acc'
      using "1.IH" [OF Some] "1.prems" b m by simp
    show ?thesis
      using Some ih skip at m GetSubstitution_literal [OF "1.prems"(2)]
      by (simp del: matchPositions.simps add: matchPositions.simps [of s pat i])
  qed
qed

lemma replaceAll_literal:
  "pat \<noteq> [] \<Longrightarrow> literal_value v \<Longrightarrow> replaceAll s pat v = replace_every pat v s"
  using assemble_literal [of pat v 0 s "[]"] by (simp add: replaceAll_def)

lemma foldl_replaceAll_literal:
  "\<forall>(name, val) \<in> set entries. literal_value val \<Longrightarrow>
     foldl (\<lambda>str (name, val). replaceAll str (placeholder name) val) template entries
       = substitute template entries"
  unfolding substitute_def
proof (induction entries arbitrary: template)
  case Nil
  then show ?case by simp
next
  case (Cons e es)
  obtain name val where e: "e = (name, val)" by (cases e)
  with Cons.prems have "literal_value val" by simp
  then have "replaceAll template (placeholder name) val = replace_every (placeholder name) val template"
    by (intro replaceAll_literal) (simp_all add: placeholder_def)
  with Cons e show ?case by simp
qed

lemma replace_every_no_dollar:
  "dollar \<notin> set s \<Longrightarrow> replace_every (placeholder name) val s = s"
  by (induction s) (auto simp: placeholder_def dollar_def)

lemma substitute_no_dollar:
  "dollar \<notin> set s \<Longrightarrow> substitute s entries = s"
  unfolding substitute_def
  by (induction entries) (auto simp: replace_every_no_dollar)

subsection \<open>The two models of the lookup\<close>

lemma resolve_js_own:
  assumes "translations_var st L = None \<longrightarrow> inherited R L = Absent"
    and "\<forall>table. translations_var st L = Some table \<and> table K = None \<longrightarrow> inherited R K = Absent"
  shows "resolve_js R st K (Some L) = Inr (Str (resolve st K (Some L)))"
  using assms by (auto simp: resolve_js_def resolve_def Let_def split: option.splits)

lemma t_js_own:
  assumes "translations_var st L = None \<longrightarrow> inherited R L = Absent"
    and "\<forall>table. translations_var st L = Some table \<and> table K = None \<longrightarrow> inherited R K = Absent"
  shows "t_js R st K args (Some L) = Inr (Str (t st K args (Some L)))"
  by (simp add: t_js_def t_def resolve_js_own [OF assms] split: option.splits)

lemma t_js_default_locale:
  "t_js R st K args None = t_js R st K args (Some (locale_var st))"
  by (simp add: t_js_def resolve_js_def Let_def)

lemma t_own_entry:
  "translations_var st L = Some table \<Longrightarrow> table K = Some template \<Longrightarrow>
     t st K None (Some L) = template
     \<and> t st K (Some entries) (Some L)
         = foldl (\<lambda>str (name, val). replaceAll str (placeholder name) val) template entries"
  by (simp add: t_def resolve_def)

lemma t_no_entry:
  "translations_var st L = None \<or> (\<exists>table. translations_var st L = Some table \<and> table K = None) \<Longrightarrow>
     t st K None (Some L) = K
     \<and> t st K (Some entries) (Some L)
         = foldl (\<lambda>str (name, val). replaceAll str (placeholder name) val) K entries"
  by (auto simp: t_def resolve_def)

lemma t_js_plain_key:
  assumes "inherited R K = Absent" and "inherited R L \<noteq> Raises"
    and "\<forall>v. property_of R v K = Absent"
  shows "t_js R st K args (Some L) = Inr (Str (t st K args (Some L)))"
proof -
  have "resolve_js R st K (Some L) = Inr (Str (resolve st K (Some L)))"
    using assms
    by (cases "inherited R L")
      (auto simp: resolve_js_def resolve_def Let_def split: option.splits)
  then show ?thesis
    by (simp add: t_js_def t_def split: option.splits)
qed

lemma t_js_inherited_key:
  assumes "translations_var st L = Some table" and "table K = None"
    and "inherited R K = Found (Val v)"
  shows "t_js R st K None (Some L) = Inr (Val v)"
    and "entries \<noteq> [] \<Longrightarrow> t_js R st K (Some entries) (Some L) = Inl TypeError"
  using assms by (simp_all add: t_js_def resolve_js_def Let_def)

lemma t_js_inherited_locale:
  assumes "translations_var st L = None" and "inherited R L = Found v"
    and "property_of R v K = Found u"
  shows "t_js R st K None (Some L) = Inr u"
  using assms by (simp add: t_js_def resolve_js_def Let_def)

subsection \<open>The toggler\<close>

lemma getBlockAttr_no_block:
  "blocks st blockId = None \<Longrightarrow> getBlockAttr st blockId = JObj []"
  by (simp add: getBlockAttr_def)

lemma getBlockAttr_no_attr:
  "blocks st blockId = Some b \<Longrightarrow> \<forall>p \<in> set (properties b). prop_name p \<noteq> ''_attr'' \<Longrightarrow>
     getBlockAttr st blockId = JObj []"
proof -
  assume b: "blocks st blockId = Some b" and n: "\<forall>p \<in> set (properties b). prop_name p \<noteq> ''_attr''"
  from n have "find (\<lambda>p. prop_name p = ''_attr'') (properties b) = None"
    by (simp add: find_None_iff)
  with b show ?thesis by (simp add: getBlockAttr_def)
qed

lemma getBlockAttr_object:
  "blocks st blockId = Some b \<Longrightarrow> find (\<lambda>p. prop_name p = ''_attr'') (properties b) = Some p \<Longrightarrow>
     prop_value p = JObj m \<Longrightarrow> getBlockAttr st blockId = JObj m"
  by (simp add: getBlockAttr_def)

lemma issue_invoke:
  "issue (InvokeEditorCommand i c args) w = w\<lparr>calls := calls w @ [InvokeEditorCommand i c args]\<rparr>"
  by (simp add: issue_def)

lemma fst_setMultiCol:
  "fst (setMultiCol reply blockId w) =
     w\<lparr>calls := calls w @ [setProperties_call blockId
         (AList.update ''multi-col'' (JNum 1) (own_entries (getBlockAttr (orca w) blockId)))]\<rparr>"
  by (simp add: setMultiCol_def Let_def setProperties_call_def issue_invoke)

lemma fst_setSeries:
  "fst (setSeries reply blockId w) =
     w\<lparr>calls := calls w @ [setProperties_call blockId
         (AList.update ''serie'' (JNum 1) (own_entries (getBlockAttr (orca w) blockId)))]\<rparr>"
  by (simp add: setSeries_def Let_def setProperties_call_def issue_invoke)

lemma fst_clearLayout:
  "fst (clearLayout reply blockId w) =
     w\<lparr>calls := calls w @
        [let attr = AList.delete ''serie'' (AList.delete ''multi-col''
                      (own_entries (getBlockAttr (orca w) blockId)))
         in if attr = [] then deleteProperties_call blockId else setProperties_call blockId attr]\<rparr>"
  by (simp add: clearLayout_def Let_def setProperties_call_def deleteProperties_call_def issue_invoke)

lemma snd_ops:
  "snd (setMultiCol reply blockId w) = await_then_null reply"
  "snd (setSeries reply blockId w) = await_then_null reply"
  "snd (clearLayout reply blockId w) = await_then_null reply"
  by (simp_all add: setMultiCol_def setSeries_def clearLayout_def Let_def)

subsection \<open>\<open>load\<close> and the menu\<close>

lemma issued_append: "calls w' = calls w @ xs \<Longrightarrow> issued w w' = xs"
  by (simp add: issued_def)

lemma issue_simps:
  "plugin (issue c w) = plugin w"
  "calls (issue c w) = calls w @ [c]"
  "orca (issue c w) = host_react c (orca w)"
  by (simp_all add: issue_def)

lemma load_steps:
  "load zhCN name w0 =
     (let w1 = w0\<lparr>plugin := (plugin w0)\<lparr>pluginName := name\<rparr>\<rparr>;
          w2 = w1\<lparr>plugin := (plugin w1)\<lparr>l10n_state :=
                 setupL10N (state_locale (orca w1)) [''zh-CN'' \<mapsto> zhCN] (l10n_state (plugin w1))\<rparr>\<rparr>;
          w3 = register_multi_col w2;
          w4 = register_series w3;
          w5 = register_none w4;
          w6 = register_menu w5;
          w7 = issue (InjectCSSResource (pluginName (plugin w6) @ ''/dist/layouts.css'')
                 (pluginName (plugin w6))) w6
      in issue (ConsoleLog (pluginName (plugin w7) @ '' loaded.'')) w7)"
  by (simp only: load_def register_multi_col_def register_series_def register_none_def
      register_menu_def)

lemma register_plugin:
  "plugin (register_multi_col w) = plugin w"
  "plugin (register_series w) = plugin w"
  "plugin (register_none w) = plugin w"
  "plugin (register_menu w) = plugin w"
  by (simp_all add: register_multi_col_def register_series_def register_none_def
      register_menu_def issue_simps)

lemma register_multi_col_calls:
  "calls (register_multi_col w) = calls w @
     (if commands (orca w) (pluginName (plugin w) @ ''.multi-col'') = None
      then [RegisterEditorCommand (pluginName (plugin w) @ ''.multi-col'') SetMultiCol
              (t (l10n_state (plugin w)) ''Set Multi-column'' None None)] else [])"
  by (simp add: register_multi_col_def issue_simps)

lemma register_series_calls:
  "calls (register_series w) = calls w @
     (if commands (orca w) (pluginName (plugin w) @ ''.series'') = None
      then [RegisterEditorCommand (pluginName (plugin w) @ ''.series'') SetSeries
              (t (l10n_state (plugin w)) ''Set Series'' None None)] else [])"
  by (simp add: register_series_def issue_simps)

lemma register_none_calls:
  "calls (register_none w) = calls w @
     (if commands (orca w) (pluginName (plugin w) @ ''.none'') = None
      then [RegisterEditorCommand (pluginName (plugin w) @ ''.none'') ClearLayout
              (t (l10n_state (plugin w)) ''Clear Layout'' None None)] else [])"
  by (simp add: register_none_def issue_simps)

lemma register_menu_calls:
  "calls (register_menu w) = calls w @
     (if blockMenuCommands (orca w) (pluginName (plugin w) @ ''.menu'') = None
      then [RegisterBlockMenuCommand (pluginName (plugin w) @ ''.menu'')
              \<lparr>worksOnMultipleBlocks = False, render_fn = RenderTableLayout\<rparr>] else [])"
  by (simp add: register_menu_def issue_simps)

lemma register_multi_col_commands:
  "commands (orca (register_multi_col w)) i =
     (if i = pluginName (plugin w) @ ''.multi-col'' \<and> commands (orca w) i = None
      then Some \<lparr>label = t (l10n_state (plugin w)) ''Set Multi-column'' None None,
                  fn = SetMultiCol\<rparr>
      else commands (orca w) i)"
  by (auto simp: register_multi_col_def issue_simps)

lemma register_series_commands:
  "commands (orca (register_series w)) i =
     (if i = pluginName (plugin w) @ ''.series'' \<and> commands (orca w) i = None
      then Some \<lparr>label = t (l10n_state (plugin w)) ''Set Series'' None None, fn = SetSeries\<rparr>
      else commands (orca w) i)"
  by (auto simp: register_series_def issue_simps)

lemma register_none_commands:
  "commands (orca (register_none w)) i =
     (if i = pluginName (plugin w) @ ''.none'' \<and> commands (orca w) i = None
      then Some \<lparr>label = t (l10n_state (plugin w)) ''Clear Layout'' None None, fn = ClearLayout\<rparr>
      else commands (orca w) i)"
  by (auto simp: register_none_def issue_simps)

lemma register_menu_commands:
  "commands (orca (register_menu w)) = commands (orca w)"
  by (simp add: register_menu_def issue_simps)

lemma register_blockMenuCommands:
  "blockMenuCommands (orca (register_multi_col w)) = blockMenuCommands (orca w)"
  "blockMenuCommands (orca (register_series w)) = blockMenuCommands (orca w)"
  "blockMenuCommands (orca (register_none w)) = blockMenuCommands (orca w)"
  "blockMenuCommands (orca (register_menu w)) i =
     (if i = pluginName (plugin w) @ ''.menu'' \<and> blockMenuCommands (orca w) i = None
      then Some \<lparr>worksOnMultipleBlocks = False, render_fn = RenderTableLayout\<rparr>
      else blockMenuCommands (orca w) i)"
  by (auto simp: register_multi_col_def register_series_def register_none_def
      register_menu_def issue_simps)

lemmas register_simps =
  register_plugin register_multi_col_calls register_series_calls register_none_calls
  register_menu_calls register_multi_col_commands register_series_commands
  register_none_commands register_menu_commands register_blockMenuCommands

lemma load_calls:
  "calls (load zhCN name w) = calls w @ registrations zhCN name w
     @ [InjectCSSResource (name @ ''/dist/layouts.css'') name, ConsoleLog (name @ '' loaded.'')]"
  by (simp add: load_steps Let_def issue_simps register_simps registrations_def)

lemma load_registered:
  "commands (orca (load zhCN name w)) (name @ ''.multi-col'') \<noteq> None"
  "commands (orca (load zhCN name w)) (name @ ''.series'') \<noteq> None"
  "commands (orca (load zhCN name w)) (name @ ''.none'') \<noteq> None"
  "blockMenuCommands (orca (load zhCN name w)) (name @ ''.menu'') \<noteq> None"
  by (simp_all add: load_steps Let_def issue_simps register_simps)

lemma load_pluginName: "pluginName (plugin (load zhCN name w)) = name"
  by (simp add: load_steps Let_def issue_simps register_simps)

lemma registrations_loaded: "registrations zhCN name (load zhCN' name w) = []"
  by (simp add: registrations_def load_registered)

lemma registrations_guarded:
  "RegisterEditorCommand i f l \<in> set (registrations zhCN name w) \<Longrightarrow> commands (orca w) i = None"
  "RegisterBlockMenuCommand i m \<in> set (registrations zhCN name w) \<Longrightarrow>
     blockMenuCommands (orca w) i = None"
  by (auto simp: registrations_def Let_def split: if_splits)

lemma filter_inject_registrations: "filter is_inject (registrations zhCN name w) = []"
  by (simp add: registrations_def Let_def is_inject_def)

lemma load_fn:
  "commands (orca w) (name @ ''.multi-col'') = None \<Longrightarrow>
     map_option fn (commands (orca (load zhCN name w)) (name @ ''.multi-col'')) = Some SetMultiCol"
  "commands (orca w) (name @ ''.series'') = None \<Longrightarrow>
     map_option fn (commands (orca (load zhCN name w)) (name @ ''.series'')) = Some SetSeries"
  "commands (orca w) (name @ ''.none'') = None \<Longrightarrow>
     map_option fn (commands (orca (load zhCN name w)) (name @ ''.none'')) = Some ClearLayout"
  by (simp_all add: load_steps Let_def issue_simps register_simps)

section \<open>The claims\<close>

subsection \<open>Localization lookup\<close>

text \<open>
  Claim C1, amended. For every runtime, locale \<open>L\<close> and key \<open>K\<close>, and every \<open>args\<close> whose
  values are literal: if the table of \<open>L\<close> has an entry for \<open>K\<close>, then \<open>t(K, args, L)\<close>
  returns that entry's template with, for each entry of \<open>args\<close> in order, every occurrence
  of \<open>${name}\<close> replaced by its value. If \<open>L\<close> names neither a table nor an inherited
  member, or the table of \<open>L\<close> has no entry for \<open>K\<close> and \<open>K\<close> names no inherited member,
  then \<open>t\<close> returns the key \<open>K\<close> with the same substitution applied to it, which is \<open>K\<close>
  itself when \<open>args\<close> is absent or empty or when \<open>K\<close> contains no \<open>$\<close>. In all these
  cases \<open>t\<close> returns a string and does not throw. Without an explicit locale, \<open>_locale\<close>
  takes the place of \<open>L\<close>.
\<close>

theorem t_lookup:
  assumes "\<forall>(name, val) \<in> set entries. literal_value val"
  shows "(\<forall>table template. translations_var st L = Some table \<and> table K = Some template \<longrightarrow>
            t_js R st K (Some entries) (Some L) = Inr (Str (substitute template entries))
          \<and> t_js R st K None (Some L) = Inr (Str template))
       \<and> ((translations_var st L = None \<and> inherited R L = Absent)
            \<or> (\<exists>table. translations_var st L = Some table \<and> table K = None
                  \<and> inherited R K = Absent) \<longrightarrow>
            t_js R st K (Some entries) (Some L) = Inr (Str (substitute K entries))
          \<and> t_js R st K None (Some L) = Inr (Str K)
          \<and> t_js R st K (Some []) (Some L) = Inr (Str K)
          \<and> (dollar \<notin> set K \<longrightarrow> t_js R st K (Some entries) (Some L) = Inr (Str K)))
       \<and> t_js R st K (Some entries) None = t_js R st K (Some entries) (Some (locale_var st))"
proof (intro conjI allI impI)
  fix table template
  assume own: "translations_var st L = Some table \<and> table K = Some template"
  then have link: "t_js R st K args (Some L) = Inr (Str (t st K args (Some L)))" for args
    by (intro t_js_own) simp_all
  from own t_own_entry [of st L table K template entries]
  show "t_js R st K (Some entries) (Some L) = Inr (Str (substitute template entries))"
    by (simp add: link foldl_replaceAll_literal [OF assms])
  from own t_own_entry [of st L table K template entries]
  show "t_js R st K None (Some L) = Inr (Str template)"
    by (simp add: link)
next
  assume none: "(translations_var st L = None \<and> inherited R L = Absent)
            \<or> (\<exists>table. translations_var st L = Some table \<and> table K = None
                  \<and> inherited R K = Absent)"
  then have link: "t_js R st K args (Some L) = Inr (Str (t st K args (Some L)))" for args
    by (intro t_js_own) auto
  from none have no: "translations_var st L = None
      \<or> (\<exists>table. translations_var st L = Some table \<and> table K = None)"
    by auto
  show sub: "t_js R st K (Some entries) (Some L) = Inr (Str (substitute K entries))"
    using t_no_entry [OF no, of entries] by (simp add: link foldl_replaceAll_literal [OF assms])
  show "t_js R st K None (Some L) = Inr (Str K)"
    using t_no_entry [OF no, of entries] by (simp add: link)
  show "t_js R st K (Some []) (Some L) = Inr (Str K)"
    using t_no_entry [OF no, of "[]"] by (simp add: link)
  show "t_js R st K (Some entries) (Some L) = Inr (Str K)" if "dollar \<notin> set K"
    using sub that by (simp add: substitute_no_dollar)
next
  show "t_js R st K (Some entries) None = t_js R st K (Some entries) (Some (locale_var st))"
    by (rule t_js_default_locale)
qed

text \<open>
  Claim C1, the amended statement at a table with one entry: for a key of the table, for
  a key that the table lacks, and for a locale without a table.
\<close>

theorem t_lookup_witness:
  "t_js sample_runtime demo_l10n ''Hello ${name}'' (Some [(''name'', ''${other}'')]) (Some ''zh-CN'')
     = Inr (Str ''Ni hao ${other}!'')
   \<and> inherited sample_runtime ''Bye ${name}'' = Absent
   \<and> t_js sample_runtime demo_l10n ''Bye ${name}'' (Some [(''name'', ''${other}'')]) (Some ''zh-CN'')
     = Inr (Str ''Bye ${other}'')
   \<and> inherited sample_runtime ''fr'' = Absent
   \<and> t_js sample_runtime demo_l10n ''Hello ${name}'' (Some [(''name'', ''${other}'')]) (Some ''fr'')
     = Inr (Str ''Hello ${other}'')"
proof -
  have a: "inherited sample_runtime ''Bye ${name}'' = Absent"
    and b: "inherited sample_runtime ''fr'' = Absent"
    by (simp_all add: sample_runtime_def object_prototype_names_def)
  have s: "substitute ''Ni hao ${name}!'' [(''name'', ''${other}'')] = ''Ni hao ${other}!''"
    "substitute ''Bye ${name}'' [(''name'', ''${other}'')] = ''Bye ${other}''"
    "substitute ''Hello ${name}'' [(''name'', ''${other}'')] = ''Hello ${other}''"
    by (simp_all add: substitute_def placeholder_def)
  show ?thesis
    using t_lookup [of "[(''name'', ''${other}'')]" demo_l10n "''zh-CN''" "''Hello ${name}''" sample_runtime]
      t_lookup [of "[(''name'', ''${other}'')]" demo_l10n "''zh-CN''" "''Bye ${name}''" sample_runtime]
      t_lookup [of "[(''name'', ''${other}'')]" demo_l10n "''fr''" "''Hello ${name}''" sample_runtime]
    by (simp add: a b s demo_l10n_def dollar_def)
qed

text \<open>
  Claim C1 as stated fails: with no table for the locale and a non-empty \<open>args\<close>, the
  placeholders of the key itself are substituted, and the result is not the key.
\<close>

theorem t_fallback_counterexample:
  "translations_var l10n_init ''fr'' = None
   \<and> inherited sample_runtime ''fr'' = Absent
   \<and> t_js sample_runtime l10n_init ''Hello ${name}'' (Some [(''name'', ''Ann'')]) (Some ''fr'')
       = Inr (Str ''Hello Ann'')
   \<and> t_js sample_runtime l10n_init ''Hello ${name}'' (Some [(''name'', ''Ann'')]) (Some ''fr'')
       \<noteq> Inr (Str ''Hello ${name}'')"
  by code_simp

text \<open>
  Where the lookup reads an inherited member, the result is that member and no template:
  with a table for the locale, the key \<open>constructor\<close> yields a function, and a
  \<open>TypeError\<close> once \<open>args\<close> has an entry.
\<close>

lemma t_js_inherited_examples:
  "t_js sample_runtime demo_l10n ''constructor'' None (Some ''zh-CN'')
     = Inr (Val (Member ''constructor''))"
  "t_js sample_runtime demo_l10n ''constructor'' (Some [(''a'', ''b'')]) (Some ''zh-CN'')
     = Inl TypeError"
  by (simp_all add: t_js_def resolve_js_def Let_def sample_runtime_def object_prototype_names_def
      demo_l10n_def)

text \<open>
  Claim C8. The replacement is not literal for every value: \<open>replaceAll\<close> expands the
  patterns \<open>$$\<close>, \<open>$&\<close>, \<open>$`\<close> and \<open>$'\<close> of the value. With \<open>{p: "$$5"}\<close> the template
  \<open>"Cost: ${p}"\<close> yields \<open>"Cost: $5"\<close>, and with \<open>{p: "$&"}\<close> the placeholder comes back.
\<close>

theorem t_dollar_pattern:
  "t l10n_init ''Cost: ${p}'' (Some [(''p'', ''$$5'')]) None = ''Cost: $5''
   \<and> t l10n_init ''Cost: ${p}'' (Some [(''p'', ''$&'')]) None = ''Cost: ${p}''"
  by code_simp

text \<open>The example of claim C8 itself holds, its value being literal.\<close>

lemma t_example:
  "t l10n_init ''Hello ${name}'' (Some [(''name'', ''${other}'')]) None = ''Hello ${other}''"
  by code_simp

subsection \<open>The attribute toggler\<close>

text \<open>
  Claim C2. \<open>clearLayout\<close> takes the entries of the block's current \<open>_attr\<close> value (the
  stored object, nothing if absent), removes the keys \<open>multi-col\<close> and \<open>serie\<close>, and
  issues one call: \<open>core.editor.deleteProperties\<close> of \<open>_attr\<close> when nothing remains, and
  otherwise \<open>core.editor.setProperties\<close> with exactly the remaining entries.
\<close>

theorem clearLayout_spec:
  "let cur = own_entries (getBlockAttr (orca w) blockId);
       reduced = AList.delete ''serie'' (AList.delete ''multi-col'' cur)
   in (\<forall>b p m. blocks (orca w) blockId = Some b
          \<and> find (\<lambda>p. prop_name p = ''_attr'') (properties b) = Some p
          \<and> prop_value p = JObj m \<longrightarrow> cur = m)
    \<and> map_of reduced = (map_of cur)(''multi-col'' := None, ''serie'' := None)
    \<and> (map_of reduced = Map.empty \<longrightarrow>
         fst (clearLayout reply blockId w)
           = w\<lparr>calls := calls w @
                [InvokeEditorCommand ''core.editor.deleteProperties'' JNull
                   [JArr [JNum blockId], JArr [JStr ''_attr'']]]\<rparr>)
    \<and> (map_of reduced \<noteq> Map.empty \<longrightarrow>
         fst (clearLayout reply blockId w)
           = w\<lparr>calls := calls w @
                [InvokeEditorCommand ''core.editor.setProperties'' JNull
                   [JArr [JNum blockId],
                    JArr [JObj [(''name'', JStr ''_attr''), (''value'', JObj reduced),
                                (''type'', JNum 0)]]]]\<rparr>)"
  by (auto simp: Let_def getBlockAttr_object fst_clearLayout delete_conv'
      setProperties_call_def deleteProperties_call_def)

text \<open>
  Claim C2 on the sample blocks: \<open>{multi-col: 1, customKey: "x"}\<close> is persisted as
  \<open>{customKey: "x"}\<close>, and \<open>{multi-col: 1}\<close> leads to the deletion of \<open>_attr\<close>.
\<close>

theorem clearLayout_spec_witness:
  "fst (clearLayout (Resolved JNull) 1 demo_world)
     = demo_world\<lparr>calls :=
         [InvokeEditorCommand ''core.editor.setProperties'' JNull
            [JArr [JNum 1],
             JArr [JObj [(''name'', JStr ''_attr''), (''value'', JObj [(''customKey'', JStr ''x'')]),
                         (''type'', JNum 0)]]]]\<rparr>
   \<and> fst (clearLayout (Resolved JNull) 4 demo_world)
     = demo_world\<lparr>calls :=
         [InvokeEditorCommand ''core.editor.deleteProperties'' JNull
            [JArr [JNum 4], JArr [JStr ''_attr'']]]\<rparr>"
  using clearLayout_spec [of demo_world 1 "Resolved JNull"]
    clearLayout_spec [of demo_world 4 "Resolved JNull"]
  by (simp add: Let_def getBlockAttr_def demo_world_def demo_orca_def)

text \<open>
  Claim C3. \<open>setMultiCol\<close> issues a single \<open>core.editor.setProperties\<close> call whose \<open>_attr\<close>
  value is the prior map with \<open>multi-col\<close> set to 1 and every other key as before, a prior
  \<open>serie: 1\<close> included, and returns \<open>null\<close> once the host has resolved the call;
  \<open>setSeries\<close> does the same with \<open>serie\<close>.
\<close>

theorem setMultiCol_spec:
  "let cur = own_entries (getBlockAttr (orca w) blockId);
       attr = AList.update ''multi-col'' (JNum 1) cur;
       attr' = AList.update ''serie'' (JNum 1) cur
   in (\<forall>b p m. blocks (orca w) blockId = Some b
          \<and> find (\<lambda>p. prop_name p = ''_attr'') (properties b) = Some p
          \<and> prop_value p = JObj m \<longrightarrow> cur = m)
    \<and> map_of attr = (map_of cur)(''multi-col'' \<mapsto> JNum 1)
    \<and> (map_of cur ''serie'' = Some (JNum 1) \<longrightarrow> map_of attr ''serie'' = Some (JNum 1))
    \<and> setMultiCol (Resolved r) blockId w
         = (w\<lparr>calls := calls w @
                [InvokeEditorCommand ''core.editor.setProperties'' JNull
                   [JArr [JNum blockId],
                    JArr [JObj [(''name'', JStr ''_attr''), (''value'', JObj attr),
                                (''type'', JNum 0)]]]]\<rparr>, Resolved JNull)
    \<and> map_of attr' = (map_of cur)(''serie'' \<mapsto> JNum 1)
    \<and> (map_of cur ''multi-col'' = Some (JNum 1) \<longrightarrow> map_of attr' ''multi-col'' = Some (JNum 1))
    \<and> setSeries (Resolved r) blockId w
         = (w\<lparr>calls := calls w @
                [InvokeEditorCommand ''core.editor.setProperties'' JNull
                   [JArr [JNum blockId],
                    JArr [JObj [(''name'', JStr ''_attr''), (''value'', JObj attr'),
                                (''type'', JNum 0)]]]]\<rparr>, Resolved JNull)"
  by (auto simp: Let_def getBlockAttr_object prod_eq_iff fst_setMultiCol fst_setSeries snd_ops
      await_then_null_def update_conv' setProperties_call_def)

text \<open>Claim C3 on the sample block whose \<open>_attr\<close> is \<open>{serie: 1}\<close>.\<close>

theorem setMultiCol_spec_witness:
  "setMultiCol (Resolved JUndefined) 3 demo_world
     = (demo_world\<lparr>calls :=
          [InvokeEditorCommand ''core.editor.setProperties'' JNull
             [JArr [JNum 3],
              JArr [JObj [(''name'', JStr ''_attr''),
                          (''value'', JObj [(''serie'', JNum 1), (''multi-col'', JNum 1)]),
                          (''type'', JNum 0)]]]]\<rparr>, Resolved JNull)"
  using setMultiCol_spec [of demo_world 3 JUndefined]
  by (simp add: Let_def getBlockAttr_def demo_world_def demo_orca_def)

text \<open>
  Claim C6. Each of \<open>setMultiCol\<close>, \<open>setSeries\<close> and \<open>clearLayout\<close> leaves the world as
  it was except for one \<open>invokeEditorCommand\<close> call added to the calls issued.
\<close>

theorem togglers_one_invocation:
  "(\<exists>i args. fst (setMultiCol reply blockId w)
        = w\<lparr>calls := calls w @ [InvokeEditorCommand i JNull args]\<rparr>)
   \<and> (\<exists>i args. fst (setSeries reply blockId w)
        = w\<lparr>calls := calls w @ [InvokeEditorCommand i JNull args]\<rparr>)
   \<and> (\<exists>i args. fst (clearLayout reply blockId w)
        = w\<lparr>calls := calls w @ [InvokeEditorCommand i JNull args]\<rparr>)"
proof (intro conjI)
  show "\<exists>i args. fst (setMultiCol reply blockId w)
          = w\<lparr>calls := calls w @ [InvokeEditorCommand i JNull args]\<rparr>"
    unfolding fst_setMultiCol setProperties_call_def by blast
  show "\<exists>i args. fst (setSeries reply blockId w)
          = w\<lparr>calls := calls w @ [InvokeEditorCommand i JNull args]\<rparr>"
    unfolding fst_setSeries setProperties_call_def by blast
  show "\<exists>i args. fst (clearLayout reply blockId w)
          = w\<lparr>calls := calls w @ [InvokeEditorCommand i JNull args]\<rparr>"
    unfolding fst_clearLayout setProperties_call_def deleteProperties_call_def Let_def
    by (cases "AList.delete ''serie'' (AList.delete ''multi-col''
                 (own_entries (getBlockAttr (orca w) blockId))) = []") (simp_all, blast+)
qed

text \<open>Claim C6 on a sample block.\<close>

theorem togglers_one_invocation_witness:
  "(\<exists>i args. fst (setMultiCol (Resolved JNull) 1 demo_world)
        = demo_world\<lparr>calls := calls demo_world @ [InvokeEditorCommand i JNull args]\<rparr>)
   \<and> (\<exists>i args. fst (setSeries (Resolved JNull) 1 demo_world)
        = demo_world\<lparr>calls := calls demo_world @ [InvokeEditorCommand i JNull args]\<rparr>)
   \<and> (\<exists>i args. fst (clearLayout (Resolved JNull) 1 demo_world)
        = demo_world\<lparr>calls := calls demo_world @ [InvokeEditorCommand i JNull args]\<rparr>)"
  using togglers_one_invocation [of "Resolved JNull" 1 demo_world] .

text \<open>
  Claim C7. For a block identifier without a block, or a block without a property
  \<open>_attr\<close>, \<open>getBlockAttr\<close> yields the empty object, and the three operations go on as
  for an empty attribute map, with no error of their own.
\<close>

theorem getBlockAttr_missing:
  assumes "blocks (orca w) blockId = None
           \<or> (\<exists>b. blocks (orca w) blockId = Some b
                  \<and> (\<forall>p \<in> set (properties b). prop_name p \<noteq> ''_attr''))"
  shows "getBlockAttr (orca w) blockId = JObj []
       \<and> setMultiCol (Resolved r) blockId w
           = (w\<lparr>calls := calls w @ [setProperties_call blockId [(''multi-col'', JNum 1)]]\<rparr>,
              Resolved JNull)
       \<and> setSeries (Resolved r) blockId w
           = (w\<lparr>calls := calls w @ [setProperties_call blockId [(''serie'', JNum 1)]]\<rparr>,
              Resolved JNull)
       \<and> clearLayout (Resolved r) blockId w
           = (w\<lparr>calls := calls w @ [deleteProperties_call blockId]\<rparr>, Resolved JNull)"
proof -
  from assms have e: "getBlockAttr (orca w) blockId = JObj []"
    by (auto simp: getBlockAttr_no_block getBlockAttr_no_attr)
  then show ?thesis
    by (simp add: prod_eq_iff fst_setMultiCol fst_setSeries fst_clearLayout snd_ops
        await_then_null_def)
qed

text \<open>Claim C7 for an identifier without a block and for a block without \<open>_attr\<close>.\<close>

theorem getBlockAttr_missing_witness:
  "blocks (orca demo_world) 99 = None \<and> getBlockAttr (orca demo_world) 99 = JObj []
   \<and> getBlockAttr (orca demo_world) 2 = JObj []"
  using getBlockAttr_missing [of demo_world 99] getBlockAttr_missing [of demo_world 2]
  by (simp add: demo_world_def demo_orca_def)

text \<open>
  Claim C9. On a block identifier without a block, or a block without a property
  \<open>_attr\<close>, \<open>clearLayout\<close> still issues exactly one call, the deletion of \<open>_attr\<close>.
\<close>

theorem clearLayout_without_attr:
  assumes "blocks (orca w) blockId = None
           \<or> (\<exists>b. blocks (orca w) blockId = Some b
                  \<and> (\<forall>p \<in> set (properties b). prop_name p \<noteq> ''_attr''))"
  shows "issued w (fst (clearLayout reply blockId w))
           = [InvokeEditorCommand ''core.editor.deleteProperties'' JNull
                [JArr [JNum blockId], JArr [JStr ''_attr'']]]"
proof -
  from assms have e: "getBlockAttr (orca w) blockId = JObj []"
    by (auto simp: getBlockAttr_no_block getBlockAttr_no_attr)
  then show ?thesis
    by (simp add: issued_def fst_clearLayout deleteProperties_call_def)
qed

text \<open>Claim C9 for an identifier without a block.\<close>

theorem clearLayout_without_attr_witness:
  "issued demo_world (fst (clearLayout (Resolved JNull) 99 demo_world))
     = [InvokeEditorCommand ''core.editor.deleteProperties'' JNull
          [JArr [JNum 99], JArr [JStr ''_attr'']]]"
  using clearLayout_without_attr [of demo_world 99 "Resolved JNull"]
  by (simp add: demo_world_def demo_orca_def)

subsection \<open>The block menu and the lifecycle\<close>

text \<open>
  Claim C4. \<open>render\<close> returns a menu exactly when the block exists and its \<open>_repr\<close> value
  has the type \<open>"table2"\<close>, and \<open>null\<close> otherwise. The menu has exactly three items,
  multi-column, series and none; clicking one invokes the editor command of that name
  under the plugin's name and, once it has resolved, closes the menu. These are the
  identifiers under which \<open>load\<close> registers \<open>setMultiCol\<close>, \<open>setSeries\<close> and \<open>clearLayout\<close>.
\<close>

theorem render_spec:
  "(render w blockId \<noteq> None \<longleftrightarrow>
      (\<exists>b p kvs. blocks (orca w) blockId = Some b
         \<and> find (\<lambda>p. prop_name p = ''_repr'') (properties b) = Some p
         \<and> prop_value p = JObj kvs \<and> map_of kvs ''type'' = Some (JStr ''table2'')))
   \<and> (\<forall>top. render w blockId = Some top \<longrightarrow>
        (\<exists>a b c ha hb hc. children top = [Menu [a, b, c]]
           \<and> title a = t (l10n_state (plugin w)) ''Multi-column'' None None
           \<and> title b = t (l10n_state (plugin w)) ''Series'' None None
           \<and> title c = t (l10n_state (plugin w)) ''None'' None None
           \<and> onClick a = Some ha \<and> onClick b = Some hb \<and> onClick c = Some hc
           \<and> (\<forall>w' r. issued w' (click ha (Resolved r) w')
                 = [InvokeEditorCommand (pluginName (plugin w') @ ''.multi-col'') JNull
                      [JNum blockId], CloseMenu])
           \<and> (\<forall>w' r. issued w' (click hb (Resolved r) w')
                 = [InvokeEditorCommand (pluginName (plugin w') @ ''.series'') JNull
                      [JNum blockId], CloseMenu])
           \<and> (\<forall>w' r. issued w' (click hc (Resolved r) w')
                 = [InvokeEditorCommand (pluginName (plugin w') @ ''.none'') JNull
                      [JNum blockId], CloseMenu])))
   \<and> (\<forall>zhCN name w0. pluginName (plugin (load zhCN name w0)) = name
        \<and> (commands (orca w0) (name @ ''.multi-col'') = None \<longrightarrow>
             map_option fn (commands (orca (load zhCN name w0)) (name @ ''.multi-col''))
               = Some SetMultiCol)
        \<and> (commands (orca w0) (name @ ''.series'') = None \<longrightarrow>
             map_option fn (commands (orca (load zhCN name w0)) (name @ ''.series''))
               = Some SetSeries)
        \<and> (commands (orca w0) (name @ ''.none'') = None \<longrightarrow>
             map_option fn (commands (orca (load zhCN name w0)) (name @ ''.none''))
               = Some ClearLayout))"
proof -
  have shown: "render w blockId \<noteq> None \<longleftrightarrow>
      (\<exists>b p kvs. blocks (orca w) blockId = Some b
         \<and> find (\<lambda>p. prop_name p = ''_repr'') (properties b) = Some p
         \<and> prop_value p = JObj kvs \<and> map_of kvs ''type'' = Some (JStr ''table2''))"
  proof (cases "blocks (orca w) blockId")
    case None
    then show ?thesis by (simp add: render_def)
  next
    case (Some b)
    show ?thesis
    proof (cases "find (\<lambda>p. prop_name p = ''_repr'') (properties b)")
      case None
      with Some show ?thesis by (simp add: render_def)
    next
      case fp: (Some p)
      show ?thesis
      proof (cases "prop_value p")
        case (JObj kvs)
        with Some fp show ?thesis
          by (auto simp: render_def Let_def split: option.splits)
      qed (use Some fp in \<open>simp_all add: render_def\<close>)
    qed
  qed
  have menu: "\<forall>top. render w blockId = Some top \<longrightarrow>
        (\<exists>a b c ha hb hc. children top = [Menu [a, b, c]]
           \<and> title a = t (l10n_state (plugin w)) ''Multi-column'' None None
           \<and> title b = t (l10n_state (plugin w)) ''Series'' None None
           \<and> title c = t (l10n_state (plugin w)) ''None'' None None
           \<and> onClick a = Some ha \<and> onClick b = Some hb \<and> onClick c = Some hc
           \<and> (\<forall>w' r. issued w' (click ha (Resolved r) w')
                 = [InvokeEditorCommand (pluginName (plugin w') @ ''.multi-col'') JNull
                      [JNum blockId], CloseMenu])
           \<and> (\<forall>w' r. issued w' (click hb (Resolved r) w')
                 = [InvokeEditorCommand (pluginName (plugin w') @ ''.series'') JNull
                      [JNum blockId], CloseMenu])
           \<and> (\<forall>w' r. issued w' (click hc (Resolved r) w')
                 = [InvokeEditorCommand (pluginName (plugin w') @ ''.none'') JNull
                      [JNum blockId], CloseMenu]))"
  proof (intro allI impI)
    fix top
    assume "render w blockId = Some top"
    then have top: "top = MenuText (Some ''ti ti-layout-dashboard'')
                     (t (l10n_state (plugin w)) ''Table Layout'' None None) None
                     [Menu
                       [MenuText None (t (l10n_state (plugin w)) ''Multi-column'' None None)
                          (Some (Handler ''.multi-col'' blockId)) [],
                        MenuText None (t (l10n_state (plugin w)) ''Series'' None None)
                          (Some (Handler ''.series'' blockId)) [],
                        MenuText None (t (l10n_state (plugin w)) ''None'' None None)
                          (Some (Handler ''.none'' blockId)) []]]"
      by (auto simp: render_def Let_def split: option.splits if_splits)
    show "\<exists>a b c ha hb hc. children top = [Menu [a, b, c]]
           \<and> title a = t (l10n_state (plugin w)) ''Multi-column'' None None
           \<and> title b = t (l10n_state (plugin w)) ''Series'' None None
           \<and> title c = t (l10n_state (plugin w)) ''None'' None None
           \<and> onClick a = Some ha \<and> onClick b = Some hb \<and> onClick c = Some hc
           \<and> (\<forall>w' r. issued w' (click ha (Resolved r) w')
                 = [InvokeEditorCommand (pluginName (plugin w') @ ''.multi-col'') JNull
                      [JNum blockId], CloseMenu])
           \<and> (\<forall>w' r. issued w' (click hb (Resolved r) w')
                 = [InvokeEditorCommand (pluginName (plugin w') @ ''.series'') JNull
                      [JNum blockId], CloseMenu])
           \<and> (\<forall>w' r. issued w' (click hc (Resolved r) w')
                 = [InvokeEditorCommand (pluginName (plugin w') @ ''.none'') JNull
                      [JNum blockId], CloseMenu])"
      unfolding top
      by (simp add: issued_def issue_def Let_def)
  qed
  have registered: "\<forall>zhCN name w0. pluginName (plugin (load zhCN name w0)) = name
        \<and> (commands (orca w0) (name @ ''.multi-col'') = None \<longrightarrow>
             map_option fn (commands (orca (load zhCN name w0)) (name @ ''.multi-col''))
               = Some SetMultiCol)
        \<and> (commands (orca w0) (name @ ''.series'') = None \<longrightarrow>
             map_option fn (commands (orca (load zhCN name w0)) (name @ ''.series''))
               = Some SetSeries)
        \<and> (commands (orca w0) (name @ ''.none'') = None \<longrightarrow>
             map_option fn (commands (orca (load zhCN name w0)) (name @ ''.none''))
               = Some ClearLayout)"
    by (simp add: load_pluginName load_fn)
  show ?thesis
    by (rule conjI [OF shown conjI [OF menu registered]])
qed

text \<open>
  Claim C4 on a table block, with its three items, on a text block and on an identifier
  without a block.
\<close>

theorem render_spec_witness:
  "render demo_world 1 \<noteq> None \<and> render demo_world 2 = None \<and> render demo_world 99 = None
   \<and> (\<exists>top a b c. render demo_world 1 = Some top \<and> children top = [Menu [a, b, c]]
        \<and> map title [a, b, c] = [''Multi-column'', ''Series'', ''None''])"
proof -
  note r1 = render_spec [of demo_world 1]
  have ex: "render demo_world 1 \<noteq> None"
    unfolding conjunct1 [OF r1] by (simp add: demo_world_def demo_orca_def)
  then obtain top where top: "render demo_world 1 = Some top"
    by (cases "render demo_world 1") simp_all
  from mp [OF spec [OF conjunct1 [OF conjunct2 [OF r1]]] top]
  obtain a b c where menu: "children top = [Menu [a, b, c]]"
    "title a = t (l10n_state (plugin demo_world)) ''Multi-column'' None None"
    "title b = t (l10n_state (plugin demo_world)) ''Series'' None None"
    "title c = t (l10n_state (plugin demo_world)) ''None'' None None"
    by (elim exE conjE) (rule that, assumption+)
  have titles: "map title [a, b, c] = [''Multi-column'', ''Series'', ''None'']"
    unfolding list.map menu by (simp add: demo_world_def t_def resolve_def l10n_init_def)
  have n2: "render demo_world 2 = None"
    using conjunct1 [OF render_spec [of demo_world 2]]
    by (simp add: demo_world_def demo_orca_def)
  have n99: "render demo_world 99 = None"
    using conjunct1 [OF render_spec [of demo_world 99]]
    by (simp add: demo_world_def demo_orca_def)
  from top menu(1) titles have "\<exists>top a b c. render demo_world 1 = Some top
      \<and> children top = [Menu [a, b, c]]
      \<and> map title [a, b, c] = [''Multi-column'', ''Series'', ''None'']"
    by (intro exI conjI)
  with ex n2 n99 show ?thesis
    by (intro conjI)
qed

text \<open>
  Claim C5. A second \<open>load\<close> right after a first one issues no registration at all, only
  the style sheet injection and the log line; and whenever \<open>load\<close> registers an editor
  command or a block menu command, no command of that identifier was in the registry.
\<close>

theorem load_twice:
  "issued (load zhCN name w) (load zhCN name (load zhCN name w))
     = [InjectCSSResource (name @ ''/dist/layouts.css'') name, ConsoleLog (name @ '' loaded.'')]
   \<and> (\<forall>i f l. RegisterEditorCommand i f l \<in> set (issued w (load zhCN name w)) \<longrightarrow>
         commands (orca w) i = None)
   \<and> (\<forall>i m. RegisterBlockMenuCommand i m \<in> set (issued w (load zhCN name w)) \<longrightarrow>
         blockMenuCommands (orca w) i = None)"
proof (intro conjI allI impI)
  show "issued (load zhCN name w) (load zhCN name (load zhCN name w))
     = [InjectCSSResource (name @ ''/dist/layouts.css'') name, ConsoleLog (name @ '' loaded.'')]"
    by (rule issued_append) (simp add: load_calls [of zhCN name "load zhCN name w"] registrations_loaded)
next
  fix i f l
  assume "RegisterEditorCommand i f l \<in> set (issued w (load zhCN name w))"
  then have "RegisterEditorCommand i f l \<in> set (registrations zhCN name w)"
    by (simp add: issued_append [OF load_calls])
  then show "commands (orca w) i = None" by (rule registrations_guarded)
next
  fix i m
  assume "RegisterBlockMenuCommand i m \<in> set (issued w (load zhCN name w))"
  then have "RegisterBlockMenuCommand i m \<in> set (registrations zhCN name w)"
    by (simp add: issued_append [OF load_calls])
  then show "blockMenuCommands (orca w) i = None" by (rule registrations_guarded)
qed

text \<open>Claim C5 from a host state with empty registries.\<close>

theorem load_twice_witness:
  "issued (load Map.empty ''p'' demo_world) (load Map.empty ''p'' (load Map.empty ''p'' demo_world))
     = [InjectCSSResource ''p/dist/layouts.css'' ''p'', ConsoleLog ''p loaded.'']
   \<and> RegisterEditorCommand ''p.series'' SetSeries ''Set Series''
        \<in> set (issued demo_world (load Map.empty ''p'' demo_world))
   \<and> commands (orca demo_world) ''p.series'' = None"
proof -
  have m: "RegisterEditorCommand ''p.series'' SetSeries ''Set Series''
        \<in> set (issued demo_world (load Map.empty ''p'' demo_world))"
    unfolding issued_append [OF load_calls]
    by (simp add: registrations_def demo_world_def demo_orca_def t_def resolve_def
        setupL10N_def l10n_init_def)
  note lt = load_twice [of Map.empty "''p''" demo_world]
  from lt have a: "issued (load Map.empty ''p'' demo_world)
       (load Map.empty ''p'' (load Map.empty ''p'' demo_world))
     = [InjectCSSResource ''p/dist/layouts.css'' ''p'', ConsoleLog ''p loaded.'']"
    by simp
  from lt have "\<forall>i f l. RegisterEditorCommand i f l
        \<in> set (issued demo_world (load Map.empty ''p'' demo_world)) \<longrightarrow>
         commands (orca demo_world) i = None"
    by (rule conjunct1 [OF conjunct2])
  with m have "commands (orca demo_world) ''p.series'' = None"
    by blast
  with a m show ?thesis by simp
qed

text \<open>
  Claim C10. Every \<open>load\<close> issues exactly one \<open>injectCSSResource\<close> call, whatever the
  registries hold; two loads in a row issue two.
\<close>

theorem load_injects_css:
  "filter is_inject (issued w (load zhCN name w))
     = [InjectCSSResource (name @ ''/dist/layouts.css'') name]
   \<and> filter is_inject (issued w (load zhCN name (load zhCN name w)))
     = [InjectCSSResource (name @ ''/dist/layouts.css'') name,
        InjectCSSResource (name @ ''/dist/layouts.css'') name]"
proof
  show "filter is_inject (issued w (load zhCN name w))
     = [InjectCSSResource (name @ ''/dist/layouts.css'') name]"
    by (simp add: issued_append [OF load_calls] filter_inject_registrations) (simp add: is_inject_def)
  have "calls (load zhCN name (load zhCN name w)) = calls w @ (registrations zhCN name w
     @ [InjectCSSResource (name @ ''/dist/layouts.css'') name, ConsoleLog (name @ '' loaded.''),
        InjectCSSResource (name @ ''/dist/layouts.css'') name, ConsoleLog (name @ '' loaded.'')])"
    by (simp add: load_calls [of zhCN name "load zhCN name w"] registrations_loaded load_calls [of zhCN name w])
  then show "filter is_inject (issued w (load zhCN name (load zhCN name w)))
     = [InjectCSSResource (name @ ''/dist/layouts.css'') name,
        InjectCSSResource (name @ ''/dist/layouts.css'') name]"
    by (simp add: issued_append filter_inject_registrations) (simp add: is_inject_def)
qed

text \<open>Claim C10 from the sample state.\<close>

theorem load_injects_css_witness:
  "filter is_inject (issued demo_world (load Map.empty ''p'' demo_world))
     = [InjectCSSResource ''p/dist/layouts.css'' ''p'']"
  using load_injects_css [of demo_world Map.empty "''p''"] by simp

end
